theory Spec2Isabelle
  imports Main "HOL-Library.Sublist"
begin

section \<open>Python values used by news/tasks.py and news/models.py\<close>

text \<open>
  Exceptions are values. \<open>NewsletterException\<close> and \<open>URLError\<close> are the two kinds
  the task decorator \<open>et_task\<close> catches; \<open>BasketError\<close> is the kind tasks raise for
  errors that must not be retried. \<open>KeyError\<close> and \<open>IndexError\<close> are what Python raises
  on a missing dictionary key and on an out-of-range list index; \<open>OtherError\<close> stands
  for an exception of any other class.
\<close>

datatype exn =
    NewsletterException string
  | URLError
  | BasketError string
  | KeyError string
  | IndexError
  | OtherError string

text \<open>A result is \<open>Inl\<close> of the exception raised or \<open>Inr\<close> of the value returned.\<close>

definition bind_r :: "exn + 'a \<Rightarrow> ('a \<Rightarrow> exn + 'b) \<Rightarrow> exn + 'b" where
  "bind_r m f = (case m of Inl e \<Rightarrow> Inl e | Inr v \<Rightarrow> f v)"

text \<open>\<open>d[key]\<close> on a dictionary entry that may be missing.\<close>

definition getitem :: "string \<Rightarrow> 'a option \<Rightarrow> exn + 'a" where
  "getitem key v = (case v of None \<Rightarrow> Inl (KeyError key) | Some x \<Rightarrow> Inr x)"

subsection \<open>Strings\<close>

text \<open>
  Strings are byte strings; \<open>lower\<close> and \<open>upper\<close> change the ASCII letters only, and
  \<open>strip\<close> removes ASCII whitespace (space, tab, newline, vertical tab, form feed,
  carriage return) at both ends.
\<close>

definition ascii_uppercase :: string where
  "ascii_uppercase = ''ABCDEFGHIJKLMNOPQRSTUVWXYZ''"

definition ascii_lowercase :: string where
  "ascii_lowercase = ''abcdefghijklmnopqrstuvwxyz''"

definition lower_char :: "char \<Rightarrow> char" where
  "lower_char c = (case map_of (zip ascii_uppercase ascii_lowercase) c of
                     None \<Rightarrow> c | Some d \<Rightarrow> d)"

definition upper_char :: "char \<Rightarrow> char" where
  "upper_char c = (case map_of (zip ascii_lowercase ascii_uppercase) c of
                     None \<Rightarrow> c | Some d \<Rightarrow> d)"

definition lower :: "string \<Rightarrow> string" where
  "lower s = map lower_char s"

definition upper :: "string \<Rightarrow> string" where
  "upper s = map upper_char s"

definition is_space :: "char \<Rightarrow> bool" where
  "is_space c = (c \<in> set [CHR '' '', CHR 0x09, CHR 0x0A, CHR 0x0B, CHR 0x0C, CHR 0x0D])"

definition strip :: "string \<Rightarrow> string" where
  "strip s = rev (dropWhile is_space (rev (dropWhile is_space s)))"

text \<open>\<open>s.split(sep)\<close> for a one-character separator: always at least one piece.\<close>

fun split_acc :: "char \<Rightarrow> string \<Rightarrow> string \<Rightarrow> string list" where
  "split_acc sep cur [] = [rev cur]"
| "split_acc sep cur (c # cs) =
     (if c = sep then rev cur # split_acc sep [] cs else split_acc sep (c # cur) cs)"

definition split :: "string \<Rightarrow> char \<Rightarrow> string list" where
  "split s sep = split_acc sep [] s"

text \<open>\<open>needle in hay\<close> for strings: \<open>needle\<close> occurs as a contiguous piece of \<open>hay\<close>.\<close>

fun str_contains :: "string \<Rightarrow> string \<Rightarrow> bool" where
  "str_contains needle [] = (needle = [])"
| "str_contains needle (c # cs) = (prefix needle (c # cs) \<or> str_contains needle cs)"

subsection \<open>Sets of slugs\<close>

text \<open>
  A Python set of slugs is a list without a promise about its order: the order of the
  list is the order in which a \<open>for\<close> loop happens to visit the set. \<open>pyset xs\<close> is
  \<open>set(xs)\<close> and \<open>set_diff a b\<close> is \<open>a - b\<close>. Statements about the result of a loop
  over a set speak of its elements only.
\<close>

definition pyset :: "string list \<Rightarrow> string list" where
  "pyset xs = remdups xs"

definition set_diff :: "string list \<Rightarrow> string list \<Rightarrow> string list" where
  "set_diff a b = filter (\<lambda>x. x \<notin> set b) a"

section \<open>The collaborators that are not part of the reconciliation code\<close>

text \<open>A row of the \<open>Newsletter\<close> table (news/models.py), with the columns the tasks read
  (\<open>welcome_field\<close> is the column \<open>welcome\<close>).\<close>

record newsletter =
  slug :: string
  welcome_field :: string
  vendor_id :: string
  languages :: string
  requires_double_optin :: bool
  confirm_message :: string

text \<open>\<open>Newsletter.language_list\<close>: the comma-separated codes, each stripped.\<close>

definition language_list :: "newsletter \<Rightarrow> string list" where
  "language_list nl = map strip (split (languages nl) CHR '','')"

text \<open>
  The dictionary \<open>get_user_data\<close> returns. Every key may be missing: \<open>None\<close> is a
  missing key, and reading it with \<open>user_data[key]\<close> raises \<open>KeyError\<close>.
\<close>

record user_data =
  ud_email :: "string option"
  ud_token :: "string option"
  ud_master :: "bool option"
  ud_pending :: "bool option"
  ud_confirmed :: "bool option"
  ud_lang :: "string option"
  ud_status :: "string option"
  ud_format :: "string option"
  ud_newsletters :: "string list option"

text \<open>
  What the tasks read from outside: the newsletter registry (news/newsletters.py), the
  \<open>Newsletter\<close> table in its default order, \<open>views.get_user_data\<close> by token, the
  clock, the settings, and the answers of the vendor (\<open>None\<close>: the call succeeds,
  \<open>Some e\<close>: it raises \<open>e\<close>). \<open>newsletter_field\<close> gives the vendor field of a slug,
  \<open>None\<close> when the slug is unknown. One run reads one value of the clock.
\<close>

record env =
  newsletter_field :: "string \<Rightarrow> string option"
  newsletter_slugs :: "string list"
  is_supported_newsletter_language :: "string \<Rightarrow> bool"
  newsletter_objects :: "newsletter list"
  get_user_data :: "string \<Rightarrow> user_data option"
  today :: string
  gmttime :: string
  EXACTTARGET_DATA :: string
  EXACTTARGET_OPTIN_STAGE :: string
  EXACTTARGET_CONFIRMATION :: string
  vendor_trigger_send :: "string \<Rightarrow> string \<Rightarrow> string \<Rightarrow> string \<Rightarrow> exn option"
  vendor_add_record :: "string \<Rightarrow> (string \<rightharpoonup> string) \<Rightarrow> exn option"

section \<open>Constants of news/tasks.py\<close>

definition SUBSCRIBE :: string where "SUBSCRIBE = ''SUBSCRIBE''"
definition UNSUBSCRIBE :: string where "UNSUBSCRIBE = ''UNSUBSCRIBE''"
definition SET :: string where "SET = ''SET''"

definition CONFIRMATION_MESSAGE :: string where
  "CONFIRMATION_MESSAGE = ''confirmation_email''"

definition FFOS_VENDOR_ID :: string where "FFOS_VENDOR_ID = ''FIREFOX_OS''"
definition FFAY_VENDOR_ID :: string where "FFAY_VENDOR_ID = ''MOZILLA_AND_YOU''"

definition MSG_USER_NOT_FOUND :: string where "MSG_USER_NOT_FOUND = ''User not found''"

definition UU_ALREADY_CONFIRMED :: int where "UU_ALREADY_CONFIRMED = 1"
definition UU_EXEMPT_PENDING :: int where "UU_EXEMPT_PENDING = 2"
definition UU_EXEMPT_NEW :: int where "UU_EXEMPT_NEW = 3"
definition UU_MUST_CONFIRM_PENDING :: int where "UU_MUST_CONFIRM_PENDING = 4"
definition UU_MUST_CONFIRM_NEW :: int where "UU_MUST_CONFIRM_NEW = 5"

section \<open>parse_newsletters\<close>

text \<open>
  \<open>if name\<close>: the vendor field is neither \<open>None\<close> nor the empty string.
\<close>

definition truthy_name :: "string option \<Rightarrow> bool" where
  "truthy_name name = (case name of None \<Rightarrow> False | Some n \<Rightarrow> n \<noteq> [])"

text \<open>\<open>cur_newsletters is None or nl not in cur_newsletters\<close>\<close>

definition unknown_or_absent :: "string list option \<Rightarrow> string \<Rightarrow> bool" where
  "unknown_or_absent cur nl = (case cur of None \<Rightarrow> True | Some c \<Rightarrow> nl \<notin> set c)"

text \<open>\<open>cur_newsletters is None or nl in cur_newsletters\<close>\<close>

definition unknown_or_present :: "string list option \<Rightarrow> string \<Rightarrow> bool" where
  "unknown_or_present cur nl = (case cur of None \<Rightarrow> True | Some c \<Rightarrow> nl \<in> set c)"

text \<open>
  The two assignments to \<open>record\<close> that flag one newsletter: \<open><name>_FLG\<close> and
  \<open><name>_DATE\<close>.
\<close>

definition set_flag :: "env \<Rightarrow> string \<Rightarrow> string \<Rightarrow> (string \<rightharpoonup> string) \<Rightarrow> (string \<rightharpoonup> string)" where
  "set_flag e name flag record =
     (record(name @ ''_FLG'' \<mapsto> flag))(name @ ''_DATE'' \<mapsto> today e)"

text \<open>The first loop, over \<open>newsletters\<close>; \<open>record\<close> and \<open>to_subscribe\<close> are its state.\<close>

fun subscribe_loop ::
  "env \<Rightarrow> string list option \<Rightarrow> string list \<Rightarrow> (string \<rightharpoonup> string) \<Rightarrow> string list
     \<Rightarrow> (string \<rightharpoonup> string) \<times> string list" where
  "subscribe_loop e cur [] record to_subscribe = (record, to_subscribe)"
| "subscribe_loop e cur (nl # rest) record to_subscribe =
     (let name = newsletter_field e nl in
      if truthy_name name \<and> unknown_or_absent cur nl
      then subscribe_loop e cur rest (set_flag e (the name) ''Y'' record) (to_subscribe @ [nl])
      else subscribe_loop e cur rest record to_subscribe)"

text \<open>The second loop, over \<open>unsubs\<close>.\<close>

fun unsubscribe_loop ::
  "env \<Rightarrow> string list option \<Rightarrow> string list \<Rightarrow> (string \<rightharpoonup> string) \<Rightarrow> string list
     \<Rightarrow> (string \<rightharpoonup> string) \<times> string list" where
  "unsubscribe_loop e cur [] record to_unsubscribe = (record, to_unsubscribe)"
| "unsubscribe_loop e cur (nl # rest) record to_unsubscribe =
     (let name = newsletter_field e nl in
      if truthy_name name \<and> unknown_or_present cur nl
      then unsubscribe_loop e cur rest (set_flag e (the name) ''N'' record) (to_unsubscribe @ [nl])
      else unsubscribe_loop e cur rest record to_unsubscribe)"

text \<open>The list \<open>unsubs\<close> the second loop runs over.\<close>

definition unsubs_of :: "env \<Rightarrow> string \<Rightarrow> string list \<Rightarrow> string list option \<Rightarrow> string list" where
  "unsubs_of e type newsletters cur =
     (if type = SET then
        (case cur of
           Some c \<Rightarrow> set_diff c (pyset newsletters)
         | None \<Rightarrow> set_diff (pyset (newsletter_slugs e)) (pyset newsletters))
      else newsletters)"

text \<open>
  \<open>parse_newsletters\<close> changes \<open>record\<close> in place and returns the two lists; here it
  returns the new \<open>record\<close> with them.
\<close>

definition parse_newsletters ::
  "env \<Rightarrow> (string \<rightharpoonup> string) \<Rightarrow> string \<Rightarrow> string list \<Rightarrow> string list option
     \<Rightarrow> (string \<rightharpoonup> string) \<times> string list \<times> string list" where
  "parse_newsletters e record type newsletters cur =
     (let (record1, to_subscribe) =
            (if type = SUBSCRIBE \<or> type = SET
             then subscribe_loop e cur newsletters record []
             else (record, []));
          (record2, to_unsubscribe) =
            (if type = UNSUBSCRIBE \<or> type = SET
             then unsubscribe_loop e cur (unsubs_of e type newsletters cur) record1 []
             else (record1, []))
      in (record2, to_subscribe, to_unsubscribe))"

text \<open>The two lists \<open>parse_newsletters\<close> returns.\<close>

definition to_subscribe_of ::
  "env \<Rightarrow> (string \<rightharpoonup> string) \<Rightarrow> string \<Rightarrow> string list \<Rightarrow> string list option
     \<Rightarrow> string list" where
  "to_subscribe_of e record type newsletters cur =
     fst (snd (parse_newsletters e record type newsletters cur))"

definition to_unsubscribe_of ::
  "env \<Rightarrow> (string \<rightharpoonup> string) \<Rightarrow> string \<Rightarrow> string list \<Rightarrow> string list option
     \<Rightarrow> string list" where
  "to_unsubscribe_of e record type newsletters cur =
     snd (snd (parse_newsletters e record type newsletters cur))"

text \<open>
  Applying a diff to a known set of current subscriptions: the slugs of \<open>to_subscribe\<close>
  are added, then those of \<open>to_unsubscribe\<close> removed.
\<close>

definition apply_diff :: "string list \<Rightarrow> string list \<Rightarrow> string list \<Rightarrow> string list" where
  "apply_diff cur to_subscribe to_unsubscribe =
     set_diff (pyset (cur @ to_subscribe)) (pyset to_unsubscribe)"

section \<open>Sending messages\<close>

text \<open>
  What the tasks change: the cache \<open>BAD_MESSAGE_ID_CACHE\<close> of message ids the vendor
  has rejected, and the calls issued to the vendor, in order: every \<open>trigger_send\<close>
  (message id, email, token, format) and every \<open>add_record\<close> (database, record),
  whether the vendor then answers with an error or not.
\<close>

record world =
  BAD_MESSAGE_ID_CACHE :: "string \<rightharpoonup> bool"
  trigger_sends :: "(string \<times> string \<times> string \<times> string) list"
  add_records :: "(string \<times> (string \<rightharpoonup> string)) list"

type_synonym 'a eff = "world \<Rightarrow> (exn + 'a) \<times> world"

definition return_e :: "'a \<Rightarrow> 'a eff" where
  "return_e v w = (Inr v, w)"

definition raise_e :: "exn \<Rightarrow> 'a eff" where
  "raise_e x w = (Inl x, w)"

definition lift_r :: "exn + 'a \<Rightarrow> 'a eff" where
  "lift_r r w = (r, w)"

definition bind_e :: "'a eff \<Rightarrow> ('a \<Rightarrow> 'b eff) \<Rightarrow> 'b eff" where
  "bind_e m f w = (case m w of (Inl x, w') \<Rightarrow> (Inl x, w') | (Inr v, w') \<Rightarrow> f v w')"

text \<open>\<open>cache.get(key, False)\<close>, read as a condition.\<close>

definition cache_get :: "(string \<rightharpoonup> bool) \<Rightarrow> string \<Rightarrow> bool" where
  "cache_get cache key = (case cache key of None \<Rightarrow> False | Some v \<Rightarrow> v)"

text \<open>\<open>repr\<close> of a string that needs no escaping: the string in single quotes.\<close>

definition repr_str :: "string \<Rightarrow> string" where
  "repr_str s = [CHR 0x27] @ s @ [CHR 0x27]"

definition apply_updates :: "env \<Rightarrow> string \<Rightarrow> (string \<rightharpoonup> string) \<Rightarrow> unit eff" where
  "apply_updates e target_et record w =
     (let w1 = w\<lparr>add_records := add_records w @ [(target_et, record)]\<rparr> in
      case vendor_add_record e target_et record of
        None \<Rightarrow> (Inr (), w1)
      | Some x \<Rightarrow> (Inl x, w1))"

definition send_message :: "env \<Rightarrow> string \<Rightarrow> string \<Rightarrow> string \<Rightarrow> string \<Rightarrow> unit eff" where
  "send_message e message_id email token format w =
     (if cache_get (BAD_MESSAGE_ID_CACHE w) message_id then (Inr (), w)
      else
        let w1 = w\<lparr>trigger_sends := trigger_sends w @ [(message_id, email, token, format)]\<rparr> in
        case vendor_trigger_send e message_id email token format of
          None \<Rightarrow> (Inr (), w1)
        | Some (NewsletterException message) \<Rightarrow>
            if str_contains ''Invalid Customer Key'' message then
              (Inl (BasketError (''ET says no such message ID: '' @ repr_str message_id)),
               w1\<lparr>BAD_MESSAGE_ID_CACHE := (BAD_MESSAGE_ID_CACHE w1)(message_id \<mapsto> True)\<rparr>)
            else if str_contains ''There are no valid subscribers.'' message then
              (Inl (BasketError ''ET says: there are no valid subscribers.''), w1)
            else (Inl (NewsletterException message), w1)
        | Some x \<Rightarrow> (Inl x, w1))"

text \<open>\<open>lang\<close> may be \<open>None\<close>; \<open>lang.lower()[:2]\<close> is the first two characters, lowered.\<close>

definition mogrify_message_id :: "string \<Rightarrow> string option \<Rightarrow> string \<Rightarrow> string" where
  "mogrify_message_id message_id lang format =
     (let result = (case lang of
                      None \<Rightarrow> message_id
                    | Some l \<Rightarrow> if l \<noteq> [] then take 2 (lower l) @ ''_'' @ message_id
                               else message_id)
      in if format = ''T'' then result @ ''_T'' else result)"

definition send_confirm_notice ::
  "env \<Rightarrow> string \<Rightarrow> string \<Rightarrow> string \<Rightarrow> string \<Rightarrow> string list \<Rightarrow> unit eff" where
  "send_confirm_notice e email token lang format slugs =
     (let lang = (if lang = [] then ''en'' else lang) in
      if \<not> is_supported_newsletter_language e lang then
        raise_e (BasketError (''Cannot send confirmation in unsupported language ''
                              @ [CHR 0x27] @ lang @ [CHR 0x27] @ ''.''))
      else
        let newsletters = take 1 (filter (\<lambda>n. slug n \<in> set slugs \<and> confirm_message n \<noteq> [])
                                    (newsletter_objects e));
            welcome = (case newsletters of [] \<Rightarrow> CONFIRMATION_MESSAGE
                       | n # _ \<Rightarrow> confirm_message n);
            welcome = mogrify_message_id welcome (Some lang) format
        in send_message e welcome email token format)"

text \<open>
  The first loop of \<open>send_welcomes\<close>: the set \<open>welcomes_to_send\<close>, as the list of its
  elements in the order they were first added.
\<close>

fun collect_welcomes :: "user_data \<Rightarrow> string \<Rightarrow> newsletter list \<Rightarrow> string list \<Rightarrow> string list" where
  "collect_welcomes user_data format [] welcomes_to_send = welcomes_to_send"
| "collect_welcomes user_data format (nl # rest) welcomes_to_send =
     (let welcome = strip (welcome_field nl) in
      if welcome = [] then collect_welcomes user_data format rest welcomes_to_send
      else
        let languages_l = map (\<lambda>lang. lower (take 2 lang)) (language_list nl);
            lang_code = lower (take 2 (case ud_lang user_data of None \<Rightarrow> ''en'' | Some l \<Rightarrow> l));
            lang_code = (if lang_code \<notin> set languages_l then ''en'' else lang_code);
            welcome = mogrify_message_id welcome (Some lang_code) format
        in collect_welcomes user_data format rest
             (if welcome \<in> set welcomes_to_send then welcomes_to_send
              else welcomes_to_send @ [welcome]))"

text \<open>The second loop: one \<open>send_message\<close> per welcome, stopping at the first exception.\<close>

fun send_each :: "env \<Rightarrow> user_data \<Rightarrow> string \<Rightarrow> string list \<Rightarrow> unit eff" where
  "send_each e user_data format [] = return_e ()"
| "send_each e user_data format (welcome # rest) =
     bind_e (lift_r (getitem ''email'' (ud_email user_data))) (\<lambda>email.
     bind_e (lift_r (getitem ''token'' (ud_token user_data))) (\<lambda>token.
     bind_e (send_message e welcome email token format) (\<lambda>_.
     send_each e user_data format rest)))"

definition send_welcomes :: "env \<Rightarrow> user_data \<Rightarrow> string list \<Rightarrow> string \<Rightarrow> unit eff" where
  "send_welcomes e user_data slugs format =
     (if slugs = [] then return_e ()
      else
        let newsletters = filter (\<lambda>n. slug n \<in> set slugs) (newsletter_objects e);
            newsletters = (if list_ex (\<lambda>n. vendor_id n = FFOS_VENDOR_ID) newsletters
                           then filter (\<lambda>n. vendor_id n \<noteq> FFAY_VENDOR_ID) newsletters
                           else newsletters)
        in send_each e user_data format (collect_welcomes user_data format newsletters []))"

text \<open>
  The body of \<open>confirm_user\<close>. \<open>update_user\<close> calls the task as a plain function: no
  worker is there to retry it, and an exception of the body reaches the caller.
\<close>

definition confirm_user :: "env \<Rightarrow> string \<Rightarrow> user_data option \<Rightarrow> unit eff" where
  "confirm_user e token user_data =
     (let user_data = (case user_data of None \<Rightarrow> get_user_data e token | Some u \<Rightarrow> Some u) in
      case user_data of
        None \<Rightarrow> raise_e (BasketError MSG_USER_NOT_FOUND)
      | Some u \<Rightarrow>
          bind_e (lift_r (getitem ''status'' (ud_status u))) (\<lambda>status.
          if status = ''error'' then raise_e (NewsletterException ''error getting user data'')
          else
            bind_e (lift_r (getitem ''confirmed'' (ud_confirmed u))) (\<lambda>confirmed.
            if confirmed then return_e ()
            else if (case ud_email u of None \<Rightarrow> True | Some m \<Rightarrow> m = []) then
              raise_e (BasketError ''token has no email in ET'')
            else
              bind_e (apply_updates e (EXACTTARGET_CONFIRMATION e) [''TOKEN'' \<mapsto> token]) (\<lambda>_.
              bind_e (lift_r (getitem ''newsletters'' (ud_newsletters u))) (\<lambda>newsletters.
              send_welcomes e u newsletters
                (case ud_format u of None \<Rightarrow> ''H'' | Some f \<Rightarrow> f))))))"

section \<open>update_user\<close>

text \<open>The loop over \<open>extra_fields\<close>: a field of \<open>data\<close> is copied under its vendor name.\<close>

definition copy_field ::
  "(string \<rightharpoonup> string) \<Rightarrow> string \<Rightarrow> string \<Rightarrow> (string \<rightharpoonup> string) \<Rightarrow> (string \<rightharpoonup> string)" where
  "copy_field data field name record =
     (case data field of None \<Rightarrow> record | Some v \<Rightarrow> record(name \<mapsto> v))"

text \<open>The local variables of \<open>update_user\<close> when it reaches the branch on the user's state.\<close>

record uu_locals =
  l_record :: "string \<rightharpoonup> string"
  l_user_data :: user_data
  l_lang :: string
  l_fmt :: string
  l_to_subscribe :: "string list"
  l_to_unsubscribe :: "string list"
  l_exempt_from_confirmation :: bool
  l_should_send_welcomes :: bool

text \<open>
  \<open>Newsletter.objects.filter(slug__in=to_subscribe, requires_double_optin=False).exists()\<close>
\<close>

definition exists_no_optin :: "env \<Rightarrow> string list \<Rightarrow> bool" where
  "exists_no_optin e to_subscribe =
     list_ex (\<lambda>n. slug n \<in> set to_subscribe \<and> requires_double_optin n = False)
       (newsletter_objects e)"

text \<open>
  From the choice of the format to \<open>should_send_welcomes\<close>: \<open>record\<close>, \<open>user_data\<close>
  and \<open>lang\<close> are the local variables as the code before has left them.
\<close>

definition uu_diff ::
  "env \<Rightarrow> (string \<rightharpoonup> string) \<Rightarrow> string \<Rightarrow> bool \<Rightarrow> (string \<rightharpoonup> string) \<Rightarrow> user_data \<Rightarrow> string
     \<Rightarrow> uu_locals" where
  "uu_diff e data type optin record user_data lang =
     (let (fmt, record) =
            (case data ''format'' of
               Some f \<Rightarrow>
                 (let fmt = (if prefix ''T'' (upper f) then ''T'' else ''H'')
                  in (fmt, record(''EMAIL_FORMAT_'' \<mapsto> fmt)))
             | None \<Rightarrow>
                 (case ud_format user_data of Some f \<Rightarrow> (f, record) | None \<Rightarrow> (''H'', record)));
          newsletters =
            map strip (split (case data ''newsletters'' of None \<Rightarrow> [] | Some v \<Rightarrow> v) CHR '','');
          cur_newsletters = map_option pyset (ud_newsletters user_data);
          (record, to_subscribe, to_unsubscribe) =
            parse_newsletters e record type newsletters cur_newsletters;
          exempt_from_confirmation = (optin \<or> exists_no_optin e to_subscribe);
          should_send_welcomes =
            ((case data ''trigger_welcome'' of None \<Rightarrow> ''Y'' | Some v \<Rightarrow> v) = ''Y''
             \<and> type = SUBSCRIBE)
      in \<lparr>l_record = record, l_user_data = user_data, l_lang = lang, l_fmt = fmt,
           l_to_subscribe = to_subscribe, l_to_unsubscribe = to_unsubscribe,
           l_exempt_from_confirmation = exempt_from_confirmation,
           l_should_send_welcomes = should_send_welcomes\<rparr>)"

text \<open>
  The first part of \<open>update_user\<close>, up to \<open>should_send_welcomes\<close>: it reads and raises,
  and calls nothing that changes the vendor or the cache. The text of the exception for a
  user record with a status other than \<open>ok\<close> leaves out the \<open>repr\<close> of the dictionary.
\<close>

definition uu_prepare ::
  "env \<Rightarrow> (string \<rightharpoonup> string) \<Rightarrow> string \<Rightarrow> string \<Rightarrow> string \<Rightarrow> bool \<Rightarrow> exn + uu_locals" where
  "uu_prepare e data email token type optin =
     (let record = [''EMAIL_ADDRESS_'' \<mapsto> email, ''TOKEN'' \<mapsto> token,
                    ''EMAIL_PERMISSION_STATUS_'' \<mapsto> ''I'', ''MODIFIED_DATE_'' \<mapsto> gmttime e];
          record = copy_field data ''country'' ''COUNTRY_'' record;
          record = copy_field data ''lang'' ''LANGUAGE_ISO2'' record;
          record = copy_field data ''source_url'' ''SOURCE_URL'' record;
          lang = (case record ''LANGUAGE_ISO2'' of None \<Rightarrow> [] | Some v \<Rightarrow> v)
      in
      bind_r
        (case get_user_data e token of
           None \<Rightarrow>
             Inr \<lparr>ud_email = Some email, ud_token = Some token, ud_master = Some False,
                  ud_pending = Some False, ud_confirmed = Some False, ud_lang = Some lang,
                  ud_status = Some ''ok'', ud_format = None, ud_newsletters = None\<rparr>
         | Some u \<Rightarrow>
             if (case ud_status u of None \<Rightarrow> ''error'' | Some st \<Rightarrow> st) \<noteq> ''ok''
             then Inl (NewsletterException ''Some error with Exact Target'')
             else Inr u)
        (\<lambda>user_data.
      bind_r
        (if lang \<noteq> [] then Inr (user_data\<lparr>ud_lang := Some lang\<rparr>, lang)
         else bind_r (getitem ''lang'' (ud_lang user_data)) (\<lambda>l. Inr (user_data, l)))
        (\<lambda>(user_data, lang). Inr (uu_diff e data type optin record user_data lang))))"

text \<open>The second part: the branch on the user's state, with its calls to the vendor.\<close>

definition uu_branch :: "env \<Rightarrow> string \<Rightarrow> string \<Rightarrow> uu_locals \<Rightarrow> int eff" where
  "uu_branch e email token l =
     (let record = l_record l; user_data = l_user_data l;
          MASTER = EXACTTARGET_DATA e; OPT_IN = EXACTTARGET_OPTIN_STAGE e
      in
      bind_e (lift_r (getitem ''confirmed'' (ud_confirmed user_data))) (\<lambda>confirmed.
      if confirmed then
        bind_e (lift_r (getitem ''master'' (ud_master user_data))) (\<lambda>master.
        bind_e (apply_updates e (if master then MASTER else OPT_IN) record) (\<lambda>_.
        bind_e (if l_should_send_welcomes l
                then send_welcomes e user_data (l_to_subscribe l) (l_fmt l)
                else return_e ()) (\<lambda>_.
        return_e UU_ALREADY_CONFIRMED)))
      else if l_exempt_from_confirmation l then
        bind_e (lift_r (getitem ''pending'' (ud_pending user_data))) (\<lambda>pending.
        if pending then
          bind_e (apply_updates e OPT_IN record) (\<lambda>_.
          bind_e (lift_r (getitem ''token'' (ud_token user_data))) (\<lambda>tok.
          bind_e (confirm_user e tok (Some user_data)) (\<lambda>_.
          return_e UU_EXEMPT_PENDING)))
        else
          (let record = record(''CREATED_DATE_'' \<mapsto> gmttime e) in
           bind_e (apply_updates e MASTER record) (\<lambda>_.
           bind_e (if l_should_send_welcomes l
                   then send_welcomes e user_data (l_to_subscribe l) (l_fmt l)
                   else return_e ()) (\<lambda>_.
           return_e UU_EXEMPT_NEW))))
      else
        bind_e (lift_r (getitem ''pending'' (ud_pending user_data))) (\<lambda>pending.
        bind_e (lift_r
                 (if pending then Inr (record, UU_MUST_CONFIRM_PENDING)
                  else
                    (let record = record(''CREATED_DATE_'' \<mapsto> gmttime e) in
                     bind_r (getitem ''TOKEN'' (record ''TOKEN'')) (\<lambda>t.
                     let record = record(''SubscriberKey'' \<mapsto> t) in
                     bind_r (getitem ''EMAIL_ADDRESS_'' (record ''EMAIL_ADDRESS_'')) (\<lambda>a.
                     let record = record(''EmailAddress'' \<mapsto> a) in
                     Inr (record, UU_MUST_CONFIRM_NEW))))))
          (\<lambda>(record, return_code).
        bind_e (apply_updates e OPT_IN record) (\<lambda>_.
        bind_e (send_confirm_notice e email token (l_lang l) (l_fmt l) (l_to_subscribe l)) (\<lambda>_.
        return_e return_code))))))"

text \<open>The function \<open>update_user\<close>, before the decorator. \<open>created\<close> is not used.\<close>

definition update_user ::
  "env \<Rightarrow> (string \<rightharpoonup> string) \<Rightarrow> string \<Rightarrow> string \<Rightarrow> bool \<Rightarrow> string \<Rightarrow> bool \<Rightarrow> int eff" where
  "update_user e data email token created type optin =
     bind_e (lift_r (uu_prepare e data email token type optin)) (uu_branch e email token)"

text \<open>The list \<open>to_subscribe\<close> that \<open>update_user\<close> computes, when it gets that far.\<close>

definition uu_to_subscribe ::
  "env \<Rightarrow> (string \<rightharpoonup> string) \<Rightarrow> string \<Rightarrow> string \<Rightarrow> string \<Rightarrow> bool \<Rightarrow> exn + string list" where
  "uu_to_subscribe e data email token type optin =
     bind_r (uu_prepare e data email token type optin) (\<lambda>l. Inr (l_to_subscribe l))"

text \<open>The part of the world that sending a message can change.\<close>

definition message_state :: "world \<Rightarrow> (string \<times> string \<times> string \<times> string) list \<times> (string \<rightharpoonup> bool)" where
  "message_state w = (trigger_sends w, BAD_MESSAGE_ID_CACHE w)"

section \<open>The task decorator\<close>

text \<open>
  How a run of a decorated task ends: it returns, it calls \<open>wrapped.retry(exc=e)\<close>, or
  an exception leaves the task, which is then failed and not retried.
\<close>

datatype 'a task_end = Returned 'a | Retry_called exn | Failed exn

definition et_task :: "'a eff \<Rightarrow> world \<Rightarrow> 'a task_end \<times> world" where
  "et_task func w =
     (case func w of
        (Inr v, w') \<Rightarrow> (Returned v, w')
      | (Inl URLError, w') \<Rightarrow> (Retry_called URLError, w')
      | (Inl (NewsletterException m), w') \<Rightarrow> (Retry_called (NewsletterException m), w')
      | (Inl x, w') \<Rightarrow> (Failed x, w'))"

section \<open>FailedTask (news/models.py)\<close>

text \<open>The values a \<open>JSONField\<close> holds.\<close>

datatype json =
    JNull
  | JBool bool
  | JNum int
  | JStr string
  | JList "json list"
  | JDict "(string \<times> json) list"

text \<open>
  A row of the \<open>FailedTask\<close> table: its primary key and its columns (\<open>ft_when\<close> is the
  column \<open>when\<close>, and so on).
\<close>

record failed_task =
  ft_pk :: nat
  ft_when :: string
  ft_task_id :: string
  ft_name :: string
  ft_args :: "json list"
  ft_kwargs :: "(string \<times> json) list"
  ft_exc :: string
  ft_einfo :: string

text \<open>\<open>all(isinstance(i, list) for i in arg.values())\<close> on a dictionary.\<close>

definition is_json_list :: "json \<Rightarrow> bool" where
  "is_json_list v = (case v of JList _ \<Rightarrow> True | _ \<Rightarrow> False)"

definition is_query_dict :: "json \<Rightarrow> bool" where
  "is_query_dict arg = (case arg of JDict kvs \<Rightarrow> list_all (\<lambda>kv. is_json_list (snd kv)) kvs
                        | _ \<Rightarrow> False)"

text \<open>
  \<open>dict((key, arg[key][0]) for key in arg)\<close>: the first element of every value, and
  \<open>IndexError\<close> at an empty list.
\<close>

fun first_values :: "(string \<times> json) list \<Rightarrow> exn + (string \<times> json) list" where
  "first_values [] = Inr []"
| "first_values ((key, v) # rest) =
     (case v of
        JList (x # _) \<Rightarrow> bind_r (first_values rest) (\<lambda>kvs. Inr ((key, x) # kvs))
      | JList [] \<Rightarrow> Inl IndexError
      | _ \<Rightarrow> Inl (OtherError ''TypeError''))"

text \<open>The loop of the property \<open>filtered_args\<close>.\<close>

fun filter_args :: "json list \<Rightarrow> exn + json list" where
  "filter_args [] = Inr []"
| "filter_args (arg # rest) =
     bind_r (if is_query_dict arg
             then (case arg of JDict kvs \<Rightarrow> bind_r (first_values kvs) (\<lambda>d. Inr (JDict d))
                   | _ \<Rightarrow> Inr arg)
             else Inr arg) (\<lambda>a.
     bind_r (filter_args rest) (\<lambda>as. Inr (a # as)))"

definition filtered_args :: "failed_task \<Rightarrow> exn + json list" where
  "filtered_args self = filter_args (ft_args self)"

text \<open>
  The table of failed tasks with the next primary key the database hands out, and the
  queue of the task signatures (name, args, kwargs) sent to the workers.
\<close>

record app_state =
  failed_tasks :: "failed_task list"
  next_pk :: nat
  task_queue :: "(string \<times> json list \<times> (string \<times> json) list) list"

text \<open>
  \<open>FailedTask.retry\<close>. \<open>broker_error\<close> is what \<open>apply_async\<close> raises, if anything.
  \<open>self.delete()\<close> removes the row with the primary key of \<open>self\<close>.
\<close>

definition retry :: "exn option \<Rightarrow> failed_task \<Rightarrow> app_state \<Rightarrow> (exn + unit) \<times> app_state" where
  "retry broker_error self s =
     (case filtered_args self of
        Inl x \<Rightarrow> (Inl x, s)
      | Inr args \<Rightarrow>
          (case broker_error of
             Some x \<Rightarrow> (Inl x, s)
           | None \<Rightarrow>
               (Inr (),
                s\<lparr>task_queue := task_queue s @ [(ft_name self, args, ft_kwargs self)],
                  failed_tasks := filter (\<lambda>t. ft_pk t \<noteq> ft_pk self) (failed_tasks s)\<rparr>)))"

text \<open>
  \<open>ETTask.on_failure\<close>: the worker runs it when a task has failed; it stores a new row.
  \<open>exc\<close> is \<open>repr(exc)\<close> and \<open>einfo\<close> is \<open>str(einfo)\<close>. The column \<open>task_id\<close> is unique.
\<close>

definition on_failure ::
  "string \<Rightarrow> string \<Rightarrow> string \<Rightarrow> string \<Rightarrow> json list \<Rightarrow> (string \<times> json) list \<Rightarrow> string
     \<Rightarrow> app_state \<Rightarrow> (exn + unit) \<times> app_state" where
  "on_failure now self_name exc task_id args kwargs einfo s =
     (if task_id \<in> set (map ft_task_id (failed_tasks s))
      then (Inl (OtherError ''IntegrityError''), s)
      else (Inr (),
            s\<lparr>failed_tasks := failed_tasks s @
                 [\<lparr>ft_pk = next_pk s, ft_when = now, ft_task_id = task_id, ft_name = self_name,
                   ft_args = args, ft_kwargs = kwargs, ft_exc = exc, ft_einfo = einfo\<rparr>],
              next_pk := Suc (next_pk s)\<rparr>))"

text \<open>
  How the run of a queued task ends for the worker: with success, or with a failure, of
  which the worker has the \<open>repr\<close> of the exception and the traceback text.
\<close>

datatype run_end = Run_succeeded | Run_failed string string

text \<open>
  A worker takes the first task of the queue under a task id and runs it to its end;
  after a failure it runs \<open>on_failure\<close>.
\<close>

definition worker_run :: "string \<Rightarrow> string \<Rightarrow> run_end \<Rightarrow> app_state \<Rightarrow> app_state" where
  "worker_run now task_id ending s =
     (case task_queue s of
        [] \<Rightarrow> s
      | (task_name, args, kwargs) # rest \<Rightarrow>
          (let s1 = s\<lparr>task_queue := rest\<rparr> in
           case ending of
             Run_succeeded \<Rightarrow> s1
           | Run_failed exc einfo \<Rightarrow>
               snd (on_failure now task_name exc task_id args kwargs einfo s1)))"

section \<open>Example data\<close>

definition ex_newsletters :: "newsletter list" where
  "ex_newsletters =
     [\<lparr>slug = ''mozilla-and-you'', welcome_field = ''39'', vendor_id = ''MOZILLA_AND_YOU'',
       languages = ''en,fr,de'', requires_double_optin = True, confirm_message = []\<rparr>,
      \<lparr>slug = ''firefox-os'', welcome_field = ''FFOS_WELCOME'', vendor_id = ''FIREFOX_OS'',
       languages = ''en, fr'', requires_double_optin = False, confirm_message = []\<rparr>,
      \<lparr>slug = ''about-mobile'', welcome_field = [], vendor_id = ''ABOUT_MOBILE'',
       languages = ''en'', requires_double_optin = True, confirm_message = []\<rparr>]"

text \<open>A user waiting to confirm a subscription to \<open>mozilla-and-you\<close>.\<close>

definition ex_pending_user :: user_data where
  "ex_pending_user =
     \<lparr>ud_email = Some ''pat@example.com'', ud_token = Some ''tok-pending'',
      ud_master = Some False, ud_pending = Some True, ud_confirmed = Some False,
      ud_lang = Some ''fr'', ud_status = Some ''ok'', ud_format = Some ''H'',
      ud_newsletters = Some [''mozilla-and-you'']\<rparr>"

text \<open>
  A registry of three newsletters and a vendor that knows one user, rejects the message id
  \<open>en_unknown_T\<close> as invalid, finds no subscriber for \<open>en_nobody\<close>, and cannot be
  reached for \<open>en_later\<close>.
\<close>

definition ex_env :: env where
  "ex_env =
     \<lparr>newsletter_field = (\<lambda>s. map_option vendor_id (find (\<lambda>n. slug n = s) ex_newsletters)),
      newsletter_slugs = map slug ex_newsletters,
      is_supported_newsletter_language = (\<lambda>l. l \<in> set [''en'', ''fr'', ''de'']),
      newsletter_objects = ex_newsletters,
      get_user_data = (\<lambda>t. if t = ''tok-pending'' then Some ex_pending_user else None),
      today = ''2014-05-01'',
      gmttime = ''Thu, 01 May 2014 10:10:00 GMT'',
      EXACTTARGET_DATA = ''MASTER'',
      EXACTTARGET_OPTIN_STAGE = ''OPT_IN'',
      EXACTTARGET_CONFIRMATION = ''CONFIRMATION'',
      vendor_trigger_send = (\<lambda>m a t f.
         if m = ''en_unknown_T'' then Some (NewsletterException ''Error: Invalid Customer Key'')
         else if m = ''en_nobody'' then Some (NewsletterException ''There are no valid subscribers.'')
         else if m = ''en_later'' then Some (NewsletterException ''Service unavailable'')
         else None),
      vendor_add_record = (\<lambda>d r. None)\<rparr>"

definition ex_world :: world where
  "ex_world = \<lparr>BAD_MESSAGE_ID_CACHE = [''fr_gone'' \<mapsto> True], trigger_sends = [], add_records = []\<rparr>"

definition ex_failed_task :: failed_task where
  "ex_failed_task =
     \<lparr>ft_pk = 1, ft_when = ''2014-05-01 10:00'', ft_task_id = ''task-1'',
      ft_name = ''news.tasks.update_user'',
      ft_args = [JDict [(''newsletters'', JList [JStr ''bogus''])], JStr ''pat@example.com''],
      ft_kwargs = [], ft_exc = ''BasketError()'', ft_einfo = ''Traceback''\<rparr>"

definition ex_app_state :: app_state where
  "ex_app_state = \<lparr>failed_tasks = [ex_failed_task], next_pk = 2, task_queue = []\<rparr>"

section \<open>Properties of parse_newsletters\<close>

lemma subscribe_loop_snd:
  "snd (subscribe_loop e cur nls r acc) =
     acc @ filter (\<lambda>nl. truthy_name (newsletter_field e nl) \<and> unknown_or_absent cur nl) nls"
  by (induction nls arbitrary: r acc) (simp_all add: Let_def)

lemma unsubscribe_loop_snd:
  "snd (unsubscribe_loop e cur nls r acc) =
     acc @ filter (\<lambda>nl. truthy_name (newsletter_field e nl) \<and> unknown_or_present cur nl) nls"
  by (induction nls arbitrary: r acc) (simp_all add: Let_def)

lemma subscribe_loop_result:
  "subscribe_loop e cur nls r [] = (r', ts) \<Longrightarrow>
     ts = filter (\<lambda>nl. truthy_name (newsletter_field e nl) \<and> unknown_or_absent cur nl) nls"
  using subscribe_loop_snd [of e cur nls r "[]"] by simp

lemma unsubscribe_loop_result:
  "unsubscribe_loop e cur nls r [] = (r', tu) \<Longrightarrow>
     tu = filter (\<lambda>nl. truthy_name (newsletter_field e nl) \<and> unknown_or_present cur nl) nls"
  using unsubscribe_loop_snd [of e cur nls r "[]"] by simp

lemma to_subscribe_of_eq:
  "to_subscribe_of e r type newsletters cur =
     (if type = SUBSCRIBE \<or> type = SET
      then filter (\<lambda>nl. truthy_name (newsletter_field e nl) \<and> unknown_or_absent cur nl) newsletters
      else [])"
  by (auto simp: to_subscribe_of_def parse_newsletters_def Let_def split: prod.splits
      dest: subscribe_loop_result)

lemma to_unsubscribe_of_eq:
  "to_unsubscribe_of e r type newsletters cur =
     (if type = UNSUBSCRIBE \<or> type = SET
      then filter (\<lambda>nl. truthy_name (newsletter_field e nl) \<and> unknown_or_present cur nl)
             (unsubs_of e type newsletters cur)
      else [])"
  by (auto simp: to_unsubscribe_of_def parse_newsletters_def Let_def split: prod.splits
      dest: unsubscribe_loop_result)

lemma set_set_diff: "set (set_diff a b) = set a - set b"
  by (auto simp: set_diff_def)

lemma set_pyset: "set (pyset xs) = set xs"
  by (simp add: pyset_def)

lemma set_apply_diff: "set (apply_diff cur ts tu) = (set cur \<union> set ts) - set tu"
  by (simp add: apply_diff_def set_set_diff set_pyset)

lemma action_distinct:
  "SUBSCRIBE \<noteq> UNSUBSCRIBE" "SUBSCRIBE \<noteq> SET" "UNSUBSCRIBE \<noteq> SET"
  "UNSUBSCRIBE \<noteq> SUBSCRIBE" "SET \<noteq> SUBSCRIBE" "SET \<noteq> UNSUBSCRIBE"
  by (simp_all add: SUBSCRIBE_def UNSUBSCRIBE_def SET_def)

lemma set_unsubs_of_SET:
  "set (unsubs_of e SET newsletters cur) =
     (case cur of Some c \<Rightarrow> set c | None \<Rightarrow> set (newsletter_slugs e)) - set newsletters"
  by (simp add: unsubs_of_def set_set_diff set_pyset split: option.splits)

text \<open>The registry of the example maps its three slugs and no other.\<close>

lemma ex_truthy_name:
  "truthy_name (newsletter_field ex_env s) =
     (s = ''mozilla-and-you'' \<or> s = ''firefox-os'' \<or> s = ''about-mobile'')"
  by (simp add: ex_env_def ex_newsletters_def truthy_name_def)

lemma ex_newsletter_slugs:
  "newsletter_slugs ex_env = [''mozilla-and-you'', ''firefox-os'', ''about-mobile'']"
  by (simp add: ex_env_def ex_newsletters_def)

lemmas ex_diff_simps =
  to_subscribe_of_eq to_unsubscribe_of_eq unsubs_of_def set_diff_def pyset_def apply_diff_def
  ex_truthy_name ex_newsletter_slugs unknown_or_absent_def unknown_or_present_def action_distinct

text \<open>
  C2, as stated, fails: under SUBSCRIBE with the current subscriptions unknown, the target
  slug \<open>bogus\<close>, which the registry does not map to a vendor field, is not placed in
  \<open>to_subscribe\<close>.
\<close>

theorem parse_newsletters_skips_unknown_target:
  "(SUBSCRIBE = SUBSCRIBE \<or> SUBSCRIBE = SET) \<and> ''bogus'' \<in> set [''bogus'']
   \<and> unknown_or_absent None ''bogus''
   \<and> ''bogus'' \<notin> set (to_subscribe_of ex_env Map.empty SUBSCRIBE [''bogus''] None)"
  by (simp add: ex_diff_simps)

text \<open>
  C2, amended: for SUBSCRIBE and SET, a target slug that is not in the current set (or the
  current set is unknown) is placed in \<open>to_subscribe\<close> exactly when the registry maps it
  to a non-empty vendor field, and it is never placed in \<open>to_unsubscribe\<close>.
\<close>

theorem parse_newsletters_subscribes_absent_targets:
  assumes "type = SUBSCRIBE \<or> type = SET"
    and "nl \<in> set newsletters"
    and "unknown_or_absent cur nl"
  shows "(nl \<in> set (to_subscribe_of e r type newsletters cur)) = truthy_name (newsletter_field e nl)
         \<and> nl \<notin> set (to_unsubscribe_of e r type newsletters cur)"
proof
  show "(nl \<in> set (to_subscribe_of e r type newsletters cur)) = truthy_name (newsletter_field e nl)"
    using assms by (auto simp: to_subscribe_of_eq)
next
  show "nl \<notin> set (to_unsubscribe_of e r type newsletters cur)"
  proof (cases "type = SET")
    case True
    then show ?thesis
      using assms(2) by (simp add: to_unsubscribe_of_eq set_unsubs_of_SET)
  next
    case False
    with assms(1) have "type = SUBSCRIBE" by simp
    then show ?thesis
      by (simp add: to_unsubscribe_of_eq action_distinct)
  qed
qed

theorem parse_newsletters_subscribes_absent_targets_witness:
  "(SET = SUBSCRIBE \<or> SET = SET) \<and> ''firefox-os'' \<in> set [''firefox-os'', ''bogus'']
   \<and> unknown_or_absent (Some [''mozilla-and-you'']) ''firefox-os''
   \<and> ''firefox-os'' \<in> set (to_subscribe_of ex_env Map.empty SET [''firefox-os'', ''bogus'']
                              (Some [''mozilla-and-you'']))
   \<and> ''firefox-os'' \<notin> set (to_unsubscribe_of ex_env Map.empty SET [''firefox-os'', ''bogus'']
                                (Some [''mozilla-and-you'']))"
proof -
  have a: "SET = SUBSCRIBE \<or> SET = SET" by simp
  have b: "''firefox-os'' \<in> set [''firefox-os'', ''bogus'']" by simp
  have c: "unknown_or_absent (Some [''mozilla-and-you'']) ''firefox-os''"
    by (simp add: unknown_or_absent_def)
  have d: "truthy_name (newsletter_field ex_env ''firefox-os'')"
    by (simp add: ex_truthy_name)
  show ?thesis
    using parse_newsletters_subscribes_absent_targets [OF a b c, of ex_env Map.empty] a b c d
    by simp
qed

text \<open>
  C3, as stated, fails: under SET with the known current set \<open>{gone}\<close> and no target,
  \<open>to_unsubscribe\<close> is empty and not the current set minus the targets, because the
  registry maps \<open>gone\<close> to no vendor field.
\<close>

theorem set_unsubscribe_skips_unmapped:
  "set (to_unsubscribe_of ex_env Map.empty SET [] (Some [''gone''])) \<noteq> set [''gone''] - set []"
  by (simp add: ex_diff_simps)

text \<open>
  C3, amended: for SET, \<open>to_unsubscribe\<close> holds exactly the slugs with a non-empty vendor
  field among the current set minus the targets when the current set is known, and among
  the slugs of the registry minus the targets when it is unknown.
\<close>

theorem set_unsubscribe_removals:
  "set (to_unsubscribe_of e r SET newsletters (Some c)) =
     {nl \<in> set c - set newsletters. truthy_name (newsletter_field e nl)}
   \<and> set (to_unsubscribe_of e r SET newsletters None) =
     {nl \<in> set (newsletter_slugs e) - set newsletters. truthy_name (newsletter_field e nl)}"
  by (auto simp: to_unsubscribe_of_eq set_unsubs_of_SET unknown_or_present_def)

theorem set_unsubscribe_removals_witness:
  "set (to_unsubscribe_of ex_env Map.empty SET [''firefox-os''] (Some [''mozilla-and-you'', ''gone'']))
     = {''mozilla-and-you''}
   \<and> set (to_unsubscribe_of ex_env Map.empty SET [''firefox-os''] None)
     = {''mozilla-and-you'', ''about-mobile''}"
  using set_unsubscribe_removals
    [of ex_env Map.empty "[''firefox-os'']" "[''mozilla-and-you'', ''gone'']"]
  by (auto simp: ex_truthy_name ex_newsletter_slugs)

text \<open>
  C9: for every action, target list and known current set, running the diff again on
  the current set with the first diff applied gives an empty \<open>to_subscribe\<close> and an
  empty \<open>to_unsubscribe\<close>.
\<close>

theorem parse_newsletters_idempotent:
  "to_subscribe_of e r' type newsletters
     (Some (apply_diff cur (to_subscribe_of e r type newsletters (Some cur))
                           (to_unsubscribe_of e r type newsletters (Some cur)))) = []
   \<and> to_unsubscribe_of e r' type newsletters
     (Some (apply_diff cur (to_subscribe_of e r type newsletters (Some cur))
                           (to_unsubscribe_of e r type newsletters (Some cur)))) = []"
proof -
  consider (sub) "type = SUBSCRIBE" | (unsub) "type = UNSUBSCRIBE" | (set) "type = SET"
    | (other) "type \<noteq> SUBSCRIBE" "type \<noteq> UNSUBSCRIBE" "type \<noteq> SET"
    by blast
  then show ?thesis
  proof cases
    case sub
    then show ?thesis
      by (auto simp: to_subscribe_of_eq to_unsubscribe_of_eq filter_empty_conv set_apply_diff
          action_distinct unknown_or_absent_def unknown_or_present_def)
  next
    case unsub
    then show ?thesis
      by (auto simp: to_subscribe_of_eq to_unsubscribe_of_eq filter_empty_conv set_apply_diff
          action_distinct unsubs_of_def unknown_or_absent_def unknown_or_present_def)
  next
    case set
    then show ?thesis
      by (auto simp: to_subscribe_of_eq to_unsubscribe_of_eq filter_empty_conv set_apply_diff
          set_unsubs_of_SET unknown_or_absent_def unknown_or_present_def)
  next
    case other
    then show ?thesis
      by (simp add: to_subscribe_of_eq to_unsubscribe_of_eq)
  qed
qed

theorem parse_newsletters_idempotent_witness:
  "apply_diff [''mozilla-and-you'', ''gone'']
     (to_subscribe_of ex_env Map.empty SET [''firefox-os'', ''bogus'']
        (Some [''mozilla-and-you'', ''gone'']))
     (to_unsubscribe_of ex_env Map.empty SET [''firefox-os'', ''bogus'']
        (Some [''mozilla-and-you'', ''gone'']))
     = [''gone'', ''firefox-os'']
   \<and> to_subscribe_of ex_env Map.empty SET [''firefox-os'', ''bogus'']
        (Some [''gone'', ''firefox-os'']) = []
   \<and> to_unsubscribe_of ex_env Map.empty SET [''firefox-os'', ''bogus'']
        (Some [''gone'', ''firefox-os'']) = []"
proof -
  have "apply_diff [''mozilla-and-you'', ''gone'']
     (to_subscribe_of ex_env Map.empty SET [''firefox-os'', ''bogus'']
        (Some [''mozilla-and-you'', ''gone'']))
     (to_unsubscribe_of ex_env Map.empty SET [''firefox-os'', ''bogus'']
        (Some [''mozilla-and-you'', ''gone'']))
     = [''gone'', ''firefox-os'']"
    by (simp add: ex_diff_simps)
  then show ?thesis
    using parse_newsletters_idempotent
      [of ex_env Map.empty SET "[''firefox-os'', ''bogus'']" "[''mozilla-and-you'', ''gone'']"
          Map.empty]
    by simp
qed

text \<open>
  C10: for every action, target list and current state (known or not), no slug is in
  both \<open>to_subscribe\<close> and \<open>to_unsubscribe\<close>.
\<close>

theorem parse_newsletters_disjoint:
  "set (to_subscribe_of e r type newsletters cur)
     \<inter> set (to_unsubscribe_of e r type newsletters cur) = {}"
proof (cases "type = SET")
  case True
  then show ?thesis
    by (auto simp: to_subscribe_of_eq to_unsubscribe_of_eq set_unsubs_of_SET)
next
  case False
  then show ?thesis
    by (auto simp: to_subscribe_of_eq to_unsubscribe_of_eq action_distinct)
qed

theorem parse_newsletters_disjoint_witness:
  "to_subscribe_of ex_env Map.empty SET [''firefox-os''] None = [''firefox-os'']
   \<and> to_unsubscribe_of ex_env Map.empty SET [''firefox-os''] None
       = [''mozilla-and-you'', ''about-mobile'']
   \<and> set (to_subscribe_of ex_env Map.empty SET [''firefox-os''] None)
       \<inter> set (to_unsubscribe_of ex_env Map.empty SET [''firefox-os''] None) = {}"
  using parse_newsletters_disjoint [of ex_env Map.empty SET "[''firefox-os'']" None]
  by (simp add: ex_diff_simps)

section \<open>Properties of the message functions\<close>

lemmas ex_string_simps =
  lower_def lower_char_def upper_def upper_char_def ascii_uppercase_def ascii_lowercase_def

text \<open>
  C8: the id is prefixed with the first two characters of the lowered language and an
  underscore when the language is neither \<open>None\<close> nor empty, \<open>_T\<close> is appended when the
  format is \<open>T\<close> (text), and nothing else changes; the three examples of the spec hold
  with the formats written \<open>H\<close> and \<open>T\<close> as the code writes them.
\<close>

theorem mogrify_message_id_spec:
  "mogrify_message_id message_id (Some lang) format =
     (if lang = [] then [] else take 2 (lower lang) @ ''_'') @ message_id
       @ (if format = ''T'' then ''_T'' else [])
   \<and> mogrify_message_id message_id None format =
       message_id @ (if format = ''T'' then ''_T'' else [])
   \<and> mogrify_message_id ''WELCOME'' (Some ''fr'') ''H'' = ''fr_WELCOME''
   \<and> mogrify_message_id ''WELCOME'' (Some ''pt'') ''T'' = ''pt_WELCOME_T''
   \<and> mogrify_message_id ''WELCOME'' (Some []) ''H'' = ''WELCOME''"
  by (simp add: mogrify_message_id_def ex_string_simps)

theorem mogrify_message_id_spec_witness:
  "mogrify_message_id ''recovery_message'' (Some ''EN-us'') ''T'' = ''en_recovery_message_T''
   \<and> mogrify_message_id ''recovery_message'' None ''H'' = ''recovery_message''"
  using mogrify_message_id_spec [of "''recovery_message''" "''EN-us''" "''T''"]
        mogrify_message_id_spec [of "''recovery_message''" "''EN-us''" "''H''"]
  by (simp add: ex_string_simps)

text \<open>
  C5: when the cache of bad message ids holds the message id, \<open>send_message\<close> returns
  without an exception and leaves the world as it is: no \<open>trigger_send\<close> is issued.
\<close>

theorem send_message_deny_listed:
  assumes "cache_get (BAD_MESSAGE_ID_CACHE w) message_id"
  shows "send_message e message_id email token format w = (Inr (), w)"
  using assms by (simp add: send_message_def)

theorem send_message_deny_listed_witness:
  "cache_get (BAD_MESSAGE_ID_CACHE ex_world) ''fr_gone''
   \<and> send_message ex_env ''fr_gone'' ''pat@example.com'' ''tok-pending'' ''H'' ex_world
       = (Inr (), ex_world)
   \<and> trigger_sends ex_world = []"
proof -
  have a: "cache_get (BAD_MESSAGE_ID_CACHE ex_world) ''fr_gone''"
    by (simp add: ex_world_def cache_get_def)
  have b: "trigger_sends ex_world = []"
    by (simp add: ex_world_def)
  show ?thesis
    using send_message_deny_listed [OF a, of ex_env "''pat@example.com''" "''tok-pending''" "''H''"]
      a b
    by simp
qed

text \<open>
  C6: let the message id not be in the cache and the vendor answer \<open>trigger_send\<close> with
  a \<open>NewsletterException\<close>. If its message contains \<open>Invalid Customer Key\<close>, the id is
  added to the cache and a \<open>BasketError\<close> leaves the task, which the decorator does not
  retry. If it contains \<open>There are no valid subscribers.\<close> instead, a \<open>BasketError\<close>
  leaves the task and the cache is unchanged. Any other \<open>NewsletterException\<close> is passed
  on, and the decorator calls \<open>retry\<close> with it; the cache is unchanged.
\<close>

theorem send_message_vendor_errors:
  assumes "\<not> cache_get (BAD_MESSAGE_ID_CACHE w) message_id"
    and "vendor_trigger_send e message_id email token format = Some (NewsletterException message)"
  shows "(str_contains ''Invalid Customer Key'' message \<longrightarrow>
            (\<exists>text w'. et_task (send_message e message_id email token format) w
                          = (Failed (BasketError text), w')
                      \<and> cache_get (BAD_MESSAGE_ID_CACHE w') message_id))
       \<and> (\<not> str_contains ''Invalid Customer Key'' message
            \<and> str_contains ''There are no valid subscribers.'' message \<longrightarrow>
            (\<exists>text w'. et_task (send_message e message_id email token format) w
                          = (Failed (BasketError text), w')
                      \<and> BAD_MESSAGE_ID_CACHE w' = BAD_MESSAGE_ID_CACHE w))
       \<and> (\<not> str_contains ''Invalid Customer Key'' message
            \<and> \<not> str_contains ''There are no valid subscribers.'' message \<longrightarrow>
            (\<exists>w'. et_task (send_message e message_id email token format) w
                     = (Retry_called (NewsletterException message), w')
                 \<and> BAD_MESSAGE_ID_CACHE w' = BAD_MESSAGE_ID_CACHE w))"
  using assms
  by (simp add: send_message_def et_task_def Let_def cache_get_def)

theorem send_message_vendor_errors_witness:
  "\<not> cache_get (BAD_MESSAGE_ID_CACHE ex_world) ''en_unknown_T''
   \<and> vendor_trigger_send ex_env ''en_unknown_T'' ''pat@example.com'' ''tok-pending'' ''T''
       = Some (NewsletterException ''Error: Invalid Customer Key'')
   \<and> str_contains ''Invalid Customer Key'' ''Error: Invalid Customer Key''
   \<and> (\<exists>text w'. et_task (send_message ex_env ''en_unknown_T'' ''pat@example.com'' ''tok-pending'' ''T'')
                    ex_world = (Failed (BasketError text), w')
                \<and> cache_get (BAD_MESSAGE_ID_CACHE w') ''en_unknown_T'')"
proof -
  have a: "\<not> cache_get (BAD_MESSAGE_ID_CACHE ex_world) ''en_unknown_T''"
    by (simp add: ex_world_def cache_get_def)
  have b: "vendor_trigger_send ex_env ''en_unknown_T'' ''pat@example.com'' ''tok-pending'' ''T''
       = Some (NewsletterException ''Error: Invalid Customer Key'')"
    by (simp add: ex_env_def)
  have c: "str_contains ''Invalid Customer Key'' ''Error: Invalid Customer Key''"
    by simp
  show ?thesis
    using send_message_vendor_errors [OF a b] a b c by blast
qed

section \<open>Properties of FailedTask.retry\<close>

lemma ex_filtered_args:
  "filtered_args ex_failed_task =
     Inr [JDict [(''newsletters'', JStr ''bogus'')], JStr ''pat@example.com'']"
  by (simp add: filtered_args_def ex_failed_task_def is_query_dict_def is_json_list_def bind_r_def)

lemma ex_retry:
  "retry None ex_failed_task ex_app_state =
     (Inr (), \<lparr>failed_tasks = [], next_pk = 2,
               task_queue = [(''news.tasks.update_user'',
                              [JDict [(''newsletters'', JStr ''bogus'')], JStr ''pat@example.com''],
                              [])]\<rparr>)"
  by (simp add: retry_def ex_filtered_args) (simp add: ex_app_state_def ex_failed_task_def)

text \<open>
  C7, as stated, fails: the record of the example is replayed, the replayed task fails
  at the worker, and the record is deleted all the same; what the table then holds is
  the new row that \<open>on_failure\<close> wrote for the failure of the replay.
\<close>

theorem retry_deletes_record_of_failing_replay:
  "ex_failed_task \<in> set (failed_tasks ex_app_state)
   \<and> fst (retry None ex_failed_task ex_app_state) = Inr ()
   \<and> ft_pk ex_failed_task \<notin> set (map ft_pk (failed_tasks (snd (retry None ex_failed_task ex_app_state))))
   \<and> map ft_pk (failed_tasks
        (worker_run ''2014-05-02 09:00'' ''task-2'' (Run_failed ''BasketError()'' ''Traceback'')
           (snd (retry None ex_failed_task ex_app_state)))) = [2]
   \<and> ft_pk ex_failed_task = 1"
  by (simp add: ex_retry worker_run_def on_failure_def)
     (simp add: ex_app_state_def ex_failed_task_def)

text \<open>
  C7, amended: when \<open>retry\<close> returns, the task has been queued again under its name with
  the filtered arguments and the stored keyword arguments, and the record has been
  deleted, before the replayed task has run and whatever its outcome will be; when
  \<open>retry\<close> raises (from \<open>filtered_args\<close> or from queueing), nothing is queued and the
  record is kept.
\<close>

theorem retry_queues_then_deletes:
  "(case retry broker_error self s of
      (Inr u, s') \<Rightarrow>
        (\<exists>args. filtered_args self = Inr args
           \<and> task_queue s' = task_queue s @ [(ft_name self, args, ft_kwargs self)])
        \<and> ft_pk self \<notin> set (map ft_pk (failed_tasks s'))
        \<and> set (failed_tasks s') = {t \<in> set (failed_tasks s). ft_pk t \<noteq> ft_pk self}
    | (Inl x, s') \<Rightarrow> s' = s)"
  by (auto simp: retry_def split: sum.splits option.splits)

theorem retry_queues_then_deletes_witness:
  "(case retry None ex_failed_task ex_app_state of
      (Inr u, s') \<Rightarrow> task_queue s' = [(''news.tasks.update_user'',
                              [JDict [(''newsletters'', JStr ''bogus'')], JStr ''pat@example.com''],
                              [])] \<and> failed_tasks s' = []
    | (Inl x, s') \<Rightarrow> False)
   \<and> failed_tasks ex_app_state = [ex_failed_task]"
  using retry_queues_then_deletes
    [where broker_error = None and self = ex_failed_task and s = ex_app_state]
  by (simp add: ex_retry) (simp add: ex_app_state_def)

section \<open>Properties of update_user\<close>

lemma bind_e_Inr:
  "bind_e m f w = (Inr v, w') \<Longrightarrow> \<exists>u w1. m w = (Inr u, w1) \<and> f u w1 = (Inr v, w')"
  by (auto simp: bind_e_def split: prod.splits sum.splits)

lemma lift_getitem_Inr:
  "lift_r (getitem key x) w = (Inr v, w') \<Longrightarrow> x = Some v \<and> w' = w"
  by (auto simp: lift_r_def getitem_def split: option.splits)

lemma lift_r_Inr: "lift_r r w = (Inr v, w') \<Longrightarrow> r = Inr v \<and> w' = w"
  by (simp add: lift_r_def)

lemma return_e_Inr: "return_e a w = (Inr v, w') \<Longrightarrow> v = a \<and> w' = w"
  by (simp add: return_e_def)

lemma exists_no_optin_iff:
  "exists_no_optin e to_subscribe =
     (\<exists>s\<in>set to_subscribe. \<exists>n\<in>set (newsletter_objects e).
        slug n = s \<and> requires_double_optin n = False)"
  by (auto simp: exists_no_optin_def list_ex_iff)

text \<open>The return code follows the branch taken.\<close>

lemma uu_branch_return_code:
  assumes "uu_branch e email token l w = (Inr return_code, w')"
  shows "(ud_confirmed (l_user_data l) = Some True \<and> return_code = UU_ALREADY_CONFIRMED)
       \<or> (ud_confirmed (l_user_data l) = Some False \<and> l_exempt_from_confirmation l
            \<and> ud_pending (l_user_data l) = Some True \<and> return_code = UU_EXEMPT_PENDING)
       \<or> (ud_confirmed (l_user_data l) = Some False \<and> l_exempt_from_confirmation l
            \<and> ud_pending (l_user_data l) = Some False \<and> return_code = UU_EXEMPT_NEW)
       \<or> (ud_confirmed (l_user_data l) = Some False \<and> \<not> l_exempt_from_confirmation l
            \<and> ud_pending (l_user_data l) = Some True \<and> return_code = UU_MUST_CONFIRM_PENDING)
       \<or> (ud_confirmed (l_user_data l) = Some False \<and> \<not> l_exempt_from_confirmation l
            \<and> ud_pending (l_user_data l) = Some False \<and> return_code = UU_MUST_CONFIRM_NEW)"
proof -
  from assms obtain confirmed where c: "ud_confirmed (l_user_data l) = Some confirmed"
    by (auto simp: uu_branch_def Let_def dest!: bind_e_Inr lift_getitem_Inr)
  show ?thesis
  proof (cases confirmed)
    case True
    with assms c have "return_code = UU_ALREADY_CONFIRMED"
      by (auto simp: uu_branch_def Let_def lift_r_def getitem_def bind_e_def return_e_def
          split: prod.splits sum.splits option.splits if_splits)
    with c True show ?thesis by simp
  next
    case False
    note nc = False
    show ?thesis
    proof (cases "l_exempt_from_confirmation l")
      case True
      with assms c nc obtain pending where p: "ud_pending (l_user_data l) = Some pending"
        by (auto simp: uu_branch_def Let_def lift_r_def getitem_def bind_e_def
            split: prod.splits sum.splits option.splits)
      with assms c nc True
      have "return_code = (if pending then UU_EXEMPT_PENDING else UU_EXEMPT_NEW)"
        by (auto simp: uu_branch_def Let_def lift_r_def getitem_def bind_e_def return_e_def
            split: prod.splits sum.splits option.splits if_splits)
      with c nc True p show ?thesis by (cases pending) simp_all
    next
      case False
      with assms c nc obtain pending where p: "ud_pending (l_user_data l) = Some pending"
        by (auto simp: uu_branch_def Let_def lift_r_def getitem_def bind_e_def
            split: prod.splits sum.splits option.splits)
      with assms c nc False
      have "return_code = (if pending then UU_MUST_CONFIRM_PENDING else UU_MUST_CONFIRM_NEW)"
        by (auto simp: uu_branch_def Let_def lift_r_def getitem_def bind_e_def bind_r_def
            return_e_def split: prod.splits sum.splits option.splits if_splits)
      with c nc False p show ?thesis by (cases pending) simp_all
    qed
  qed
qed

lemma to_subscribe_of_any_record:
  "to_subscribe_of e r type newsletters cur = to_subscribe_of e r' type newsletters cur"
  by (simp add: to_subscribe_of_eq)

lemma bind_r_Inr: "bind_r m f = Inr v \<Longrightarrow> \<exists>u. m = Inr u \<and> f u = Inr v"
  by (auto simp: bind_r_def split: sum.splits)

lemma parse_newsletters_to_subscribe:
  "parse_newsletters e r0 type newsletters cur = (r1, ts, tu) \<Longrightarrow>
     ts = to_subscribe_of e r type newsletters cur"
  using to_subscribe_of_any_record [of e r0 type newsletters cur r]
  by (simp add: to_subscribe_of_def)

lemma uu_diff_locals:
  "l_exempt_from_confirmation (uu_diff e data type optin rec0 ud lang)
     = (optin \<or> exists_no_optin e (l_to_subscribe (uu_diff e data type optin rec0 ud lang)))"
  "l_user_data (uu_diff e data type optin rec0 ud lang) = ud"
  "l_to_subscribe (uu_diff e data type optin rec0 ud lang) =
     to_subscribe_of e r type
       (map strip (split (case data ''newsletters'' of None \<Rightarrow> [] | Some v \<Rightarrow> v) CHR '',''))
       (map_option pyset (ud_newsletters ud))"
  by (auto simp: uu_diff_def Let_def split: prod.splits dest: parse_newsletters_to_subscribe)

lemma uu_prepare_Inr:
  assumes "uu_prepare e data email token type optin = Inr l"
  shows "\<exists>rec0 ud lang. l = uu_diff e data type optin rec0 ud lang"
  using assms unfolding uu_prepare_def Let_def
  by (auto dest!: bind_r_Inr)

lemma uu_prepare_locals:
  assumes "uu_prepare e data email token type optin = Inr l"
  shows "l_exempt_from_confirmation l = (optin \<or> exists_no_optin e (l_to_subscribe l))"
    and "l_to_subscribe l =
           to_subscribe_of e r type
             (map strip (split (case data ''newsletters'' of None \<Rightarrow> [] | Some v \<Rightarrow> v) CHR '',''))
             (map_option pyset (ud_newsletters (l_user_data l)))"
proof -
  from uu_prepare_Inr [OF assms] obtain rec0 ud lang
    where l: "l = uu_diff e data type optin rec0 ud lang" by blast
  show "l_exempt_from_confirmation l = (optin \<or> exists_no_optin e (l_to_subscribe l))"
    unfolding l by (rule uu_diff_locals(1))
  show "l_to_subscribe l =
           to_subscribe_of e r type
             (map strip (split (case data ''newsletters'' of None \<Rightarrow> [] | Some v \<Rightarrow> v) CHR '',''))
             (map_option pyset (ud_newsletters (l_user_data l)))"
    unfolding l uu_diff_locals(2) by (rule uu_diff_locals(3))
qed

lemma update_user_Inr:
  assumes "update_user e data email token created type optin w = (Inr return_code, w')"
  shows "\<exists>l. uu_prepare e data email token type optin = Inr l
           \<and> uu_branch e email token l w = (Inr return_code, w')"
proof -
  from assms have "bind_e (lift_r (uu_prepare e data email token type optin))
                     (uu_branch e email token) w = (Inr return_code, w')"
    by (simp add: update_user_def)
  from bind_e_Inr [OF this] obtain l w1 where
    a: "lift_r (uu_prepare e data email token type optin) w = (Inr l, w1)" and
    b: "uu_branch e email token l w1 = (Inr return_code, w')"
    by blast
  from lift_r_Inr [OF a] have "uu_prepare e data email token type optin = Inr l" and "w1 = w"
    by simp_all
  with b show ?thesis by blast
qed

lemma return_codes_distinct:
  "UU_ALREADY_CONFIRMED \<noteq> UU_EXEMPT_PENDING" "UU_ALREADY_CONFIRMED \<noteq> UU_MUST_CONFIRM_PENDING"
  "UU_ALREADY_CONFIRMED \<noteq> UU_MUST_CONFIRM_NEW" "UU_EXEMPT_NEW \<noteq> UU_EXEMPT_PENDING"
  "UU_EXEMPT_NEW \<noteq> UU_MUST_CONFIRM_PENDING" "UU_EXEMPT_NEW \<noteq> UU_MUST_CONFIRM_NEW"
  "UU_ALREADY_CONFIRMED \<noteq> UU_EXEMPT_NEW"
  by (simp_all add: UU_ALREADY_CONFIRMED_def UU_EXEMPT_PENDING_def UU_EXEMPT_NEW_def
      UU_MUST_CONFIRM_PENDING_def UU_MUST_CONFIRM_NEW_def)

text \<open>
  C1: whenever \<open>update_user\<close> returns, its return code is the one the decision table
  gives for the user's state (\<open>confirmed\<close>, \<open>pending\<close>) and \<open>exempt\<close>, where \<open>exempt\<close>
  holds iff \<open>optin\<close> is true or some slug of \<open>to_subscribe\<close>, the list
  \<open>parse_newsletters\<close> computed, is the slug of a newsletter that does not require
  double opt-in.
\<close>

theorem update_user_return_code:
  assumes "update_user e data email token created type optin w = (Inr return_code, w')"
  shows "\<exists>l. uu_prepare e data email token type optin = Inr l
     \<and> l_to_subscribe l =
           to_subscribe_of e r type
             (map strip (split (case data ''newsletters'' of None \<Rightarrow> [] | Some v \<Rightarrow> v) CHR '',''))
             (map_option pyset (ud_newsletters (l_user_data l)))
     \<and> (let confirmed = (ud_confirmed (l_user_data l) = Some True);
             pending = (ud_pending (l_user_data l) = Some True);
             exempt = (optin \<or> (\<exists>s\<in>set (l_to_subscribe l). \<exists>n\<in>set (newsletter_objects e).
                                   slug n = s \<and> requires_double_optin n = False))
         in (confirmed \<longrightarrow> return_code = UU_ALREADY_CONFIRMED)
          \<and> (\<not> confirmed \<and> exempt \<and> pending \<longrightarrow> return_code = UU_EXEMPT_PENDING)
          \<and> (\<not> confirmed \<and> exempt \<and> \<not> pending \<longrightarrow> return_code = UU_EXEMPT_NEW)
          \<and> (\<not> confirmed \<and> \<not> exempt \<and> pending \<longrightarrow> return_code = UU_MUST_CONFIRM_PENDING)
          \<and> (\<not> confirmed \<and> \<not> exempt \<and> \<not> pending \<longrightarrow> return_code = UU_MUST_CONFIRM_NEW))"
proof -
  from update_user_Inr [OF assms] obtain l where
    prep: "uu_prepare e data email token type optin = Inr l" and
    branch: "uu_branch e email token l w = (Inr return_code, w')"
    by blast
  have ex: "l_exempt_from_confirmation l =
              (optin \<or> (\<exists>s\<in>set (l_to_subscribe l). \<exists>n\<in>set (newsletter_objects e).
                          slug n = s \<and> requires_double_optin n = False))"
    using uu_prepare_locals(1) [OF prep] by (simp only: exists_no_optin_iff)
  define confirmed where "confirmed = (ud_confirmed (l_user_data l) = Some True)"
  define pending where "pending = (ud_pending (l_user_data l) = Some True)"
  define exempt where "exempt = l_exempt_from_confirmation l"
  have cases: "(confirmed \<and> return_code = UU_ALREADY_CONFIRMED)
       \<or> (\<not> confirmed \<and> exempt \<and> pending \<and> return_code = UU_EXEMPT_PENDING)
       \<or> (\<not> confirmed \<and> exempt \<and> \<not> pending \<and> return_code = UU_EXEMPT_NEW)
       \<or> (\<not> confirmed \<and> \<not> exempt \<and> pending \<and> return_code = UU_MUST_CONFIRM_PENDING)
       \<or> (\<not> confirmed \<and> \<not> exempt \<and> \<not> pending \<and> return_code = UU_MUST_CONFIRM_NEW)"
    using uu_branch_return_code [OF branch]
    unfolding confirmed_def pending_def exempt_def by force
  then have table:
    "(confirmed \<longrightarrow> return_code = UU_ALREADY_CONFIRMED)
     \<and> (\<not> confirmed \<and> exempt \<and> pending \<longrightarrow> return_code = UU_EXEMPT_PENDING)
     \<and> (\<not> confirmed \<and> exempt \<and> \<not> pending \<longrightarrow> return_code = UU_EXEMPT_NEW)
     \<and> (\<not> confirmed \<and> \<not> exempt \<and> pending \<longrightarrow> return_code = UU_MUST_CONFIRM_PENDING)
     \<and> (\<not> confirmed \<and> \<not> exempt \<and> \<not> pending \<longrightarrow> return_code = UU_MUST_CONFIRM_NEW)"
    by blast
  have "l_to_subscribe l =
           to_subscribe_of e r type
             (map strip (split (case data ''newsletters'' of None \<Rightarrow> [] | Some v \<Rightarrow> v) CHR '',''))
             (map_option pyset (ud_newsletters (l_user_data l)))"
    by (rule uu_prepare_locals(2) [OF prep])
  moreover have "let confirmed = (ud_confirmed (l_user_data l) = Some True);
             pending = (ud_pending (l_user_data l) = Some True);
             exempt = (optin \<or> (\<exists>s\<in>set (l_to_subscribe l). \<exists>n\<in>set (newsletter_objects e).
                                   slug n = s \<and> requires_double_optin n = False))
         in (confirmed \<longrightarrow> return_code = UU_ALREADY_CONFIRMED)
          \<and> (\<not> confirmed \<and> exempt \<and> pending \<longrightarrow> return_code = UU_EXEMPT_PENDING)
          \<and> (\<not> confirmed \<and> exempt \<and> \<not> pending \<longrightarrow> return_code = UU_EXEMPT_NEW)
          \<and> (\<not> confirmed \<and> \<not> exempt \<and> pending \<longrightarrow> return_code = UU_MUST_CONFIRM_PENDING)
          \<and> (\<not> confirmed \<and> \<not> exempt \<and> \<not> pending \<longrightarrow> return_code = UU_MUST_CONFIRM_NEW)"
    using table unfolding Let_def ex [symmetric] confirmed_def pending_def exempt_def .
  ultimately show ?thesis
    using prep by blast
qed

theorem update_user_return_code_witness:
  "fst (update_user ex_env [''newsletters'' \<mapsto> ''firefox-os, bogus''] ''new@example.com''
          ''tok-new'' True SUBSCRIBE False ex_world) = Inr UU_EXEMPT_NEW
   \<and> (\<exists>l. uu_prepare ex_env [''newsletters'' \<mapsto> ''firefox-os, bogus''] ''new@example.com''
             ''tok-new'' SUBSCRIBE False = Inr l
          \<and> l_to_subscribe l = [''firefox-os'']
          \<and> ud_confirmed (l_user_data l) = Some False
          \<and> ud_pending (l_user_data l) = Some False)"
proof -
  let ?run = "update_user ex_env [''newsletters'' \<mapsto> ''firefox-os, bogus''] ''new@example.com''
          ''tok-new'' True SUBSCRIBE False ex_world"
  have rc: "fst ?run = Inr UU_EXEMPT_NEW"
    by code_simp
  then have run: "?run = (Inr UU_EXEMPT_NEW, snd ?run)"
    by (metis prod.collapse)
  have ts: "map_sum id l_to_subscribe
              (uu_prepare ex_env [''newsletters'' \<mapsto> ''firefox-os, bogus''] ''new@example.com''
                 ''tok-new'' SUBSCRIBE False) = Inr [''firefox-os'']"
    by code_simp
  have cf: "map_sum id (\<lambda>l. (ud_confirmed (l_user_data l), ud_pending (l_user_data l)))
              (uu_prepare ex_env [''newsletters'' \<mapsto> ''firefox-os, bogus''] ''new@example.com''
                 ''tok-new'' SUBSCRIBE False) = Inr (Some False, Some False)"
    by code_simp
  from update_user_return_code [OF run, of Map.empty] obtain l where
    "uu_prepare ex_env [''newsletters'' \<mapsto> ''firefox-os, bogus''] ''new@example.com''
             ''tok-new'' SUBSCRIBE False = Inr l"
    by blast
  with ts cf rc show ?thesis by auto
qed

section \<open>Messages sent for an empty to_subscribe\<close>

lemma send_welcomes_Nil: "send_welcomes e user_data [] format = return_e ()"
  by (simp add: send_welcomes_def)

lemma ms_return: "message_state (snd (return_e v w)) = message_state w"
  by (simp add: return_e_def)

lemma ms_lift: "message_state (snd (lift_r r w)) = message_state w"
  by (simp add: lift_r_def)

lemma ms_apply_updates: "message_state (snd (apply_updates e target_et r w)) = message_state w"
  by (simp add: apply_updates_def Let_def message_state_def split: option.splits)

lemma ms_bind:
  assumes "\<And>w. message_state (snd (m w)) = message_state w"
    and "\<And>v w. message_state (snd (f v w)) = message_state w"
  shows "message_state (snd (bind_e m f w)) = message_state w"
proof (cases "m w")
  case (Pair r w1)
  with assms(1) [of w] have w1: "message_state w1 = message_state w" by simp
  show ?thesis
  proof (cases r)
    case (Inl x)
    with Pair w1 show ?thesis by (simp add: bind_e_def)
  next
    case (Inr v)
    with Pair w1 assms(2) [of v w1] show ?thesis by (simp add: bind_e_def)
  qed
qed

lemma ms_bind_getitem:
  assumes "\<And>v. x = Some v \<Longrightarrow> message_state (snd (f v w)) = message_state w"
  shows "message_state (snd (bind_e (lift_r (getitem key x)) f w)) = message_state w"
  using assms by (cases x) (simp_all add: bind_e_def lift_r_def getitem_def)

lemma bind_e_lift_Inr: "bind_e (lift_r (Inr v)) f w = f v w"
  by (simp add: bind_e_def lift_r_def)

lemma uu_branch_no_sends:
  assumes ts: "l_to_subscribe l = []"
    and st: "ud_confirmed (l_user_data l) = Some True
         \<or> (l_exempt_from_confirmation l \<and> ud_pending (l_user_data l) = Some False)"
  shows "message_state (snd (uu_branch e email token l w)) = message_state w"
  unfolding uu_branch_def Let_def
proof (rule ms_bind_getitem, goal_cases)
  case (1 confirmed)
  show ?case
  proof (cases confirmed)
    case True
    then show ?thesis
      by (simp add: ts send_welcomes_Nil)
         (intro ms_bind_getitem ms_bind ms_apply_updates ms_return)
  next
    case False
    with 1 st have ex: "l_exempt_from_confirmation l"
      and p: "ud_pending (l_user_data l) = Some False" by simp_all
    from False show ?thesis
      by (simp add: ts send_welcomes_Nil ex p getitem_def bind_e_lift_Inr)
         (intro ms_bind ms_apply_updates ms_return)
  qed
qed

text \<open>
  C4, as stated, fails: a user who is waiting to confirm \<open>mozilla-and-you\<close> asks for
  it again; \<open>to_subscribe\<close> is empty, the outcome is \<open>UU_MUST_CONFIRM_PENDING\<close>, and
  the confirmation notice is sent once more.
\<close>

theorem confirm_notice_sent_for_empty_to_subscribe:
  "uu_to_subscribe ex_env [''newsletters'' \<mapsto> ''mozilla-and-you''] ''pat@example.com''
     ''tok-pending'' SUBSCRIBE False = Inr []
   \<and> fst (update_user ex_env [''newsletters'' \<mapsto> ''mozilla-and-you''] ''pat@example.com''
            ''tok-pending'' False SUBSCRIBE False ex_world) = Inr UU_MUST_CONFIRM_PENDING
   \<and> trigger_sends ex_world = []
   \<and> trigger_sends (snd (update_user ex_env [''newsletters'' \<mapsto> ''mozilla-and-you'']
                           ''pat@example.com'' ''tok-pending'' False SUBSCRIBE False ex_world))
       = [(''fr_confirmation_email'', ''pat@example.com'', ''tok-pending'', ''H'')]"
  by code_simp

text \<open>
  C4, amended: \<open>send_welcomes\<close> sends nothing for an empty list of slugs, and a run of
  \<open>update_user\<close> whose \<open>to_subscribe\<close> is empty and that ends in \<open>UU_ALREADY_CONFIRMED\<close>
  or \<open>UU_EXEMPT_NEW\<close> has sent no message at all, neither a welcome nor a confirmation
  notice. (The two must-confirm outcomes send the confirmation notice whatever
  \<open>to_subscribe\<close> holds, and \<open>UU_EXEMPT_PENDING\<close> confirms the user, which sends the
  welcomes of the newsletters the user already has.)
\<close>

theorem no_message_for_empty_to_subscribe:
  assumes "uu_to_subscribe e data email token type optin = Inr []"
    and "update_user e data email token created type optin w = (Inr return_code, w')"
    and "return_code = UU_ALREADY_CONFIRMED \<or> return_code = UU_EXEMPT_NEW"
  shows "trigger_sends w' = trigger_sends w
         \<and> BAD_MESSAGE_ID_CACHE w' = BAD_MESSAGE_ID_CACHE w
         \<and> send_welcomes e user_data [] format w = (Inr (), w)"
proof -
  from update_user_Inr [OF assms(2)] obtain l where
    prep: "uu_prepare e data email token type optin = Inr l" and
    branch: "uu_branch e email token l w = (Inr return_code, w')"
    by blast
  from assms(1) prep have ts: "l_to_subscribe l = []"
    by (simp add: uu_to_subscribe_def bind_r_def)
  have st: "ud_confirmed (l_user_data l) = Some True
         \<or> (l_exempt_from_confirmation l \<and> ud_pending (l_user_data l) = Some False)"
    using uu_branch_return_code [OF branch] assms(3) return_codes_distinct
    by (elim disjE) simp_all
  from uu_branch_no_sends [OF ts st, of e email token w] branch
  have "message_state w' = message_state w" by simp
  then show ?thesis
    by (simp add: message_state_def send_welcomes_Nil return_e_def)
qed

theorem no_message_for_empty_to_subscribe_witness:
  "uu_to_subscribe ex_env [''newsletters'' \<mapsto> ''bogus''] ''new@example.com'' ''tok-new''
     SUBSCRIBE True = Inr []
   \<and> fst (update_user ex_env [''newsletters'' \<mapsto> ''bogus''] ''new@example.com'' ''tok-new''
            True SUBSCRIBE True ex_world) = Inr UU_EXEMPT_NEW
   \<and> trigger_sends (snd (update_user ex_env [''newsletters'' \<mapsto> ''bogus''] ''new@example.com''
                           ''tok-new'' True SUBSCRIBE True ex_world)) = trigger_sends ex_world"
proof -
  let ?run = "update_user ex_env [''newsletters'' \<mapsto> ''bogus''] ''new@example.com'' ''tok-new''
            True SUBSCRIBE True ex_world"
  have ts: "uu_to_subscribe ex_env [''newsletters'' \<mapsto> ''bogus''] ''new@example.com'' ''tok-new''
     SUBSCRIBE True = Inr []"
    by code_simp
  have rc: "fst ?run = Inr UU_EXEMPT_NEW"
    by code_simp
  then have run: "?run = (Inr UU_EXEMPT_NEW, snd ?run)"
    by (metis prod.collapse)
  have c: "UU_EXEMPT_NEW = UU_ALREADY_CONFIRMED \<or> UU_EXEMPT_NEW = UU_EXEMPT_NEW"
    by simp
  show ?thesis
    using no_message_for_empty_to_subscribe [OF ts run c] ts rc by simp
qed

end
